theory Spec2Isabelle
  imports Main
begin

section \<open>Python values, exceptions and computations\<close>

text \<open>
  The module \<^verbatim>\<open>attempt\<close> turns functions that return or raise into result objects.
  Its three classes are embedded below: \<^verbatim>\<open>Attempted\<close> (the result container),
  \<^verbatim>\<open>Attempt\<close> (the wrapper of a fallible function) and \<^verbatim>\<open>IterAttempted\<close> (an
  iterable of containers).

  A Python value is either \<^verbatim>\<open>None\<close> or some other object; the objects other than
  \<^verbatim>\<open>None\<close> are the type parameter \<open>'v\<close>. Python's type variables are erased at run
  time, so one universe of values serves for \<^verbatim>\<open>_T\<close> and \<^verbatim>\<open>_U\<close> alike.
\<close>

datatype 'v pyval = PyNone | PyVal 'v

text \<open>
  Exception classes: a fragment of Python's built-in hierarchy, and classes that a program
  defines by single inheritance (\<open>UserDefined name base\<close>). \<open>mro\<close> lists a class and
  its ancestors, as \<^verbatim>\<open>__mro__\<close> does (without \<^verbatim>\<open>object\<close>).
\<close>

datatype exc_class =
    BaseException
  | Exception
  | SystemExit
  | KeyboardInterrupt
  | GeneratorExit
  | StopIteration
  | RuntimeError
  | TypeError
  | ValueError
  | ArithmeticError
  | ZeroDivisionError
  | LookupError
  | KeyError
  | IndexError
  | UserDefined string exc_class

fun mro :: "exc_class \<Rightarrow> exc_class list" where
  "mro BaseException = [BaseException]"
| "mro Exception = [Exception, BaseException]"
| "mro SystemExit = [SystemExit, BaseException]"
| "mro KeyboardInterrupt = [KeyboardInterrupt, BaseException]"
| "mro GeneratorExit = [GeneratorExit, BaseException]"
| "mro StopIteration = [StopIteration, Exception, BaseException]"
| "mro RuntimeError = [RuntimeError, Exception, BaseException]"
| "mro TypeError = [TypeError, Exception, BaseException]"
| "mro ValueError = [ValueError, Exception, BaseException]"
| "mro ArithmeticError = [ArithmeticError, Exception, BaseException]"
| "mro ZeroDivisionError = [ZeroDivisionError, ArithmeticError, Exception, BaseException]"
| "mro LookupError = [LookupError, Exception, BaseException]"
| "mro KeyError = [KeyError, LookupError, Exception, BaseException]"
| "mro IndexError = [IndexError, LookupError, Exception, BaseException]"
| "mro (UserDefined name base) = UserDefined name base # mro base"

definition issubclass :: "exc_class \<Rightarrow> exc_class \<Rightarrow> bool" where
  "issubclass c d = (d \<in> set (mro c))"

text \<open>An exception object: its class and its arguments (the message).\<close>

datatype exc = Exc (exc_type: exc_class) (exc_args: string)

definition isinstance :: "exc \<Rightarrow> exc_class \<Rightarrow> bool" where
  "isinstance e c = issubclass (exc_type e) c"

text \<open>
  What stands after \<^verbatim>\<open>except\<close>: one class, or a tuple of classes. The clause
  \<^verbatim>\<open>except X as e\<close> takes an exception that is an instance of the class, or of one
  class of the tuple.
\<close>

datatype exc_spec = OneClass exc_class | ClassTuple "exc_class list"

fun except_matches :: "exc_spec \<Rightarrow> exc \<Rightarrow> bool" where
  "except_matches (OneClass c) e = isinstance e c"
| "except_matches (ClassTuple cs) e = list_ex (isinstance e) cs"

text \<open>
  A computation runs in a state \<open>'s\<close> (everything a callable can change besides its
  result) and either returns (\<open>Inr\<close>) or raises (\<open>Inl\<close>). Calls that do not come back
  are outside this model.
\<close>

type_synonym ('s, 'a) py = "'s \<Rightarrow> (exc + 'a) \<times> 's"

definition py_return :: "'a \<Rightarrow> ('s, 'a) py" where
  "py_return x = (\<lambda>s. (Inr x, s))"

definition py_raise :: "exc \<Rightarrow> ('s, 'a) py" where
  "py_raise e = (\<lambda>s. (Inl e, s))"

definition py_bind :: "('s, 'a) py \<Rightarrow> ('a \<Rightarrow> ('s, 'b) py) \<Rightarrow> ('s, 'b) py" where
  "py_bind m k = (\<lambda>s. case m s of (Inl e, s') \<Rightarrow> (Inl e, s') | (Inr x, s') \<Rightarrow> k x s')"

text \<open>The outcome of an expression that changes no state, such as a property read.\<close>

definition py_pure :: "exc + 'a \<Rightarrow> ('s, 'a) py" where
  "py_pure r = (\<lambda>s. (r, s))"

section \<open>The result container \<^verbatim>\<open>Attempted\<close>\<close>

text \<open>
  \<^verbatim>\<open>__init__(self, value, exception)\<close> stores its two arguments in \<^verbatim>\<open>_value\<close> and
  \<^verbatim>\<open>_exception\<close>; the latter is an exception or \<^verbatim>\<open>None\<close>.
\<close>

record 'v Attempted =
  priv_value :: "'v pyval"
  priv_exception :: "exc option"

definition Attempted_init :: "'v pyval \<Rightarrow> exc option \<Rightarrow> 'v Attempted" where
  "Attempted_init v x = \<lparr>priv_value = v, priv_exception = x\<rparr>"

text \<open>\<^verbatim>\<open>of(cls, value)\<close> is \<^verbatim>\<open>cls(value, None)\<close>.\<close>

definition Attempted_of :: "'v pyval \<Rightarrow> 'v Attempted" where
  "Attempted_of v = Attempted_init v None"

text \<open>
  \<^verbatim>\<open>of_exception(cls, exception)\<close> is \<^verbatim>\<open>cls(None, exception)\<close>. Nothing checks the
  argument, so it may be \<^verbatim>\<open>None\<close> as well: the argument is an \<open>exc option\<close>.
\<close>

definition Attempted_of_exception :: "exc option \<Rightarrow> 'v Attempted" where
  "Attempted_of_exception x = Attempted_init PyNone x"

text \<open>The property \<^verbatim>\<open>exception\<close> returns \<^verbatim>\<open>_exception\<close>.\<close>

definition Attempted_exception :: "'v Attempted \<Rightarrow> exc option" where
  "Attempted_exception self = priv_exception self"

text \<open>
  The property \<^verbatim>\<open>value\<close>: raises the held exception when there is one, returns
  \<^verbatim>\<open>_value\<close> otherwise.
\<close>

definition Attempted_value :: "'v Attempted \<Rightarrow> exc + 'v pyval" where
  "Attempted_value self =
     (case Attempted_exception self of
        Some e \<Rightarrow> Inl e
      | None \<Rightarrow> Inr (priv_value self))"

text \<open>\<^verbatim>\<open>__bool__\<close>: \<^verbatim>\<open>self.exception is None\<close>.\<close>

definition Attempted_bool :: "'v Attempted \<Rightarrow> bool" where
  "Attempted_bool self = (Attempted_exception self = None)"

section \<open>The wrapper \<^verbatim>\<open>Attempt\<close>\<close>

text \<open>
  An \<^verbatim>\<open>Attempt\<close> holds \<^verbatim>\<open>_exc_types\<close> and \<^verbatim>\<open>_fn\<close>, the closure \<^verbatim>\<open>wrapper\<close>.
  The wrapped function takes its arguments \<open>'x\<close> (the positional and keyword arguments of
  one call, as one value) and returns a value or raises.
\<close>

record ('x, 's, 'v) Attempt =
  priv_exc_types :: exc_spec
  priv_fn :: "'x \<Rightarrow> ('s, 'v Attempted) py"

text \<open>
  \<^verbatim>\<open>wrapper(*args, **kwargs)\<close>: the call of \<^verbatim>\<open>fn\<close> stands in a \<^verbatim>\<open>try\<close> whose one
  handler is \<^verbatim>\<open>except self._exc_types as e\<close>. An exception that the handler does not
  take leaves the wrapper.
\<close>

definition wrapper ::
  "('x \<Rightarrow> ('s, 'v pyval) py) \<Rightarrow> exc_spec \<Rightarrow> 'x \<Rightarrow> ('s, 'v Attempted) py" where
  "wrapper fn exc_types args =
     (\<lambda>s. case fn args s of
        (Inr r, s') \<Rightarrow> (Inr (Attempted_of r), s')
      | (Inl e, s') \<Rightarrow>
          if except_matches exc_types e
          then (Inr (Attempted_of_exception (Some e)), s')
          else (Inl e, s'))"

text \<open>
  \<^verbatim>\<open>__init__(self, fn, *exc_types)\<close>: an empty tuple of classes is replaced by the class
  \<^verbatim>\<open>Exception\<close> (the class itself, not a tuple).
\<close>

definition Attempt_init ::
  "('x \<Rightarrow> ('s, 'v pyval) py) \<Rightarrow> exc_class list \<Rightarrow> ('x, 's, 'v) Attempt" where
  "Attempt_init fn exc_types =
     (let exc_types' = (if exc_types = [] then OneClass Exception else ClassTuple exc_types)
      in \<lparr>priv_exc_types = exc_types', priv_fn = wrapper fn exc_types'\<rparr>)"

text \<open>\<^verbatim>\<open>__call__\<close> passes its arguments to \<^verbatim>\<open>_fn\<close>.\<close>

definition Attempt_call :: "('x, 's, 'v) Attempt \<Rightarrow> 'x \<Rightarrow> ('s, 'v Attempted) py" where
  "Attempt_call self args = priv_fn self args"

section \<open>\<^verbatim>\<open>Attempted.map\<close> and \<^verbatim>\<open>Attempted.flatmap\<close>\<close>

text \<open>
  \<^verbatim>\<open>map\<close>: a truthy container returns \<^verbatim>\<open>Attempt(fn)(self.value)\<close>, a falsy one returns
  itself.
\<close>

definition Attempted_map ::
  "'v Attempted \<Rightarrow> ('v pyval \<Rightarrow> ('s, 'v pyval) py) \<Rightarrow> ('s, 'v Attempted) py" where
  "Attempted_map self fn =
     (if Attempted_bool self
      then py_bind (py_pure (Attempted_value self)) (Attempt_call (Attempt_init fn []))
      else py_return self)"

text \<open>
  \<^verbatim>\<open>flatmap\<close>: a truthy container returns \<^verbatim>\<open>fn(self.value)\<close>, a falsy one returns
  itself.
\<close>

definition Attempted_flatmap ::
  "'v Attempted \<Rightarrow> ('v pyval \<Rightarrow> ('s, 'v Attempted) py) \<Rightarrow> ('s, 'v Attempted) py" where
  "Attempted_flatmap self fn =
     (if Attempted_bool self
      then py_bind (py_pure (Attempted_value self)) fn
      else py_return self)"

section \<open>Iterables and \<^verbatim>\<open>IterAttempted\<close>\<close>

text \<open>
  An iterable is the finite list of the computations that produce its elements: the
  \<open>n\<close>-th call of \<^verbatim>\<open>__next__\<close> runs the \<open>n\<close>-th computation, in the state the
  consumer has reached, and what is left of the list is the position of the iterator.
  A computation that raises is a call of \<^verbatim>\<open>__next__\<close> that raises. Endless iterables
  are outside this model.

  \<open>from_list\<close> is a Python list (its elements are there already); \<open>py_map\<close> is the
  built-in \<^verbatim>\<open>map(f, it)\<close>, which calls \<open>f\<close> when the element is asked for.
\<close>

type_synonym ('s, 'a) iterable = "('s, 'a) py list"

definition from_list :: "'a list \<Rightarrow> ('s, 'a) iterable" where
  "from_list xs = map py_return xs"

definition py_map :: "('a \<Rightarrow> ('s, 'b) py) \<Rightarrow> ('s, 'a) iterable \<Rightarrow> ('s, 'b) iterable" where
  "py_map f it = map (\<lambda>t. py_bind t f) it"

record ('s, 'v) IterAttempted =
  priv_iterable :: "('s, 'v Attempted) iterable"

definition IterAttempted_init :: "('s, 'v Attempted) iterable \<Rightarrow> ('s, 'v) IterAttempted" where
  "IterAttempted_init it = \<lparr>priv_iterable = it\<rparr>"

text \<open>
  \<^verbatim>\<open>__iter__\<close> is a generator that yields the elements of \<^verbatim>\<open>_iterable\<close> one by one:
  it hands each element on when it is asked for.
\<close>

definition IterAttempted_iter :: "('s, 'v) IterAttempted \<Rightarrow> ('s, 'v Attempted) iterable" where
  "IterAttempted_iter self = priv_iterable self"

text \<open>\<^verbatim>\<open>from_values(cls, xs)\<close> is \<^verbatim>\<open>cls(map(Attempted.of, xs))\<close>.\<close>

definition IterAttempted_from_values ::
  "('s, 'v pyval) iterable \<Rightarrow> ('s, 'v) IterAttempted" where
  "IterAttempted_from_values xs =
     IterAttempted_init (py_map (\<lambda>x. py_return (Attempted_of x)) xs)"

text \<open>\<^verbatim>\<open>map(self, fn)\<close> is \<^verbatim>\<open>self.__class__(map(lambda x: x.map(fn), self))\<close>.\<close>

definition IterAttempted_map ::
  "('s, 'v) IterAttempted \<Rightarrow> ('v pyval \<Rightarrow> ('s, 'v pyval) py) \<Rightarrow> ('s, 'v) IterAttempted" where
  "IterAttempted_map self fn =
     IterAttempted_init (py_map (\<lambda>x. Attempted_map x fn) (IterAttempted_iter self))"

text \<open>
  A generator that is run to its end has yielded a list of values and has then either
  returned or raised. Inside a generator Python replaces a \<^verbatim>\<open>StopIteration\<close> that the
  body raises by \<^verbatim>\<open>RuntimeError("generator raised StopIteration")\<close>, and
  \<^verbatim>\<open>raise None\<close> is a \<^verbatim>\<open>TypeError\<close>: \<open>raise_in_generator x\<close> is the exception that
  leaves a generator whose body executes \<^verbatim>\<open>raise x\<close>.
\<close>

datatype gen_end = Returned | Raised exc

definition raise_in_generator :: "exc option \<Rightarrow> exc" where
  "raise_in_generator x =
     (case x of
        None \<Rightarrow> Exc TypeError ''exceptions must derive from BaseException''
      | Some e \<Rightarrow>
          if isinstance e StopIteration then Exc RuntimeError ''generator raised StopIteration''
          else e)"

text \<open>
  The loop of \<^verbatim>\<open>values\<close>, \<^verbatim>\<open>for t in self\<close>, run to its end. The result has the values
  yielded in order, the way the generator ended, the part of the iterable that was never
  asked for, and the state. A \<^verbatim>\<open>__next__\<close> that raises \<^verbatim>\<open>StopIteration\<close> ends a
  \<^verbatim>\<open>for\<close> loop; any other exception of \<^verbatim>\<open>__next__\<close> leaves the generator.
\<close>

fun values_loop ::
  "bool \<Rightarrow> ('s, 'v Attempted) iterable \<Rightarrow> 's
   \<Rightarrow> ('v pyval list \<times> gen_end \<times> ('s, 'v Attempted) iterable) \<times> 's" where
  "values_loop ignore_failures [] s = (([], Returned, []), s)"
| "values_loop ignore_failures (t # ts) s =
     (case t s of
        (Inl e, s') \<Rightarrow>
          if isinstance e StopIteration then (([], Returned, ts), s')
          else (([], Raised e, ts), s')
      | (Inr a, s') \<Rightarrow>
          if Attempted_bool a then
            (case Attempted_value a of
               Inl e \<Rightarrow> (([], Raised (raise_in_generator (Some e)), ts), s')
             | Inr v \<Rightarrow>
                 (case values_loop ignore_failures ts s' of
                    ((ys, en, rest), s'') \<Rightarrow> ((v # ys, en, rest), s'')))
          else if \<not> ignore_failures then
            (([], Raised (raise_in_generator (Attempted_exception a)), ts), s')
          else values_loop ignore_failures ts s')"

definition IterAttempted_values ::
  "('s, 'v) IterAttempted \<Rightarrow> bool
   \<Rightarrow> 's \<Rightarrow> ('v pyval list \<times> gen_end \<times> ('s, 'v Attempted) iterable) \<times> 's" where
  "IterAttempted_values self ignore_failures =
     values_loop ignore_failures (IterAttempted_iter self)"

text \<open>
  \<^verbatim>\<open>Attempt.map(self, iterable)\<close> is \<^verbatim>\<open>IterAttempted(map(self, iterable))\<close> and
  \<^verbatim>\<open>Attempt.starmap(self, iterable)\<close> is \<^verbatim>\<open>IterAttempted(starmap(self, iterable))\<close>.
  Each element of the iterable is the arguments of one call: one positional argument
  for \<^verbatim>\<open>map\<close>, a tuple that is unpacked for \<^verbatim>\<open>starmap\<close>. (With further iterables,
  \<^verbatim>\<open>map\<close> takes the arguments of a call from all of them at one position; they are
  taken as zipped into one here.)
\<close>

definition Attempt_map ::
  "('x, 's, 'v) Attempt \<Rightarrow> ('s, 'x) iterable \<Rightarrow> ('s, 'v) IterAttempted" where
  "Attempt_map self iterable = IterAttempted_init (py_map (Attempt_call self) iterable)"

definition Attempt_starmap ::
  "('x, 's, 'v) Attempt \<Rightarrow> ('s, 'x) iterable \<Rightarrow> ('s, 'v) IterAttempted" where
  "Attempt_starmap self iterable = IterAttempted_init (py_map (Attempt_call self) iterable)"

section \<open>Functions used as test inputs\<close>

text \<open>
  The state of the test functions is a number that \<open>reciprocal\<close> increments at each
  call. \<open>reciprocal\<close> is \<^verbatim>\<open>lambda x: 100 // x\<close> on integers.
\<close>

definition reciprocal :: "int pyval \<Rightarrow> (nat, int pyval) py" where
  "reciprocal v =
     (\<lambda>s. case v of
        PyNone \<Rightarrow> (Inl (Exc TypeError ''unsupported operand type(s)''), Suc s)
      | PyVal n \<Rightarrow>
          if n = 0 then (Inl (Exc ZeroDivisionError ''integer division or modulo by zero''), Suc s)
          else (Inr (PyVal (100 div n)), Suc s))"

text \<open>A function that is interrupted from the keyboard, and one that exits.\<close>

definition interrupted :: "int pyval \<Rightarrow> (nat, int pyval) py" where
  "interrupted v = py_raise (Exc KeyboardInterrupt [])"

definition exiting :: "int pyval \<Rightarrow> (nat, int pyval) py" where
  "exiting v = py_raise (Exc SystemExit ''0'')"

text \<open>Two functions that return containers: \<^verbatim>\<open>Attempt(reciprocal, ArithmeticError)\<close>
  and a function that refuses negative numbers by raising.\<close>

definition try_reciprocal :: "int pyval \<Rightarrow> (nat, int Attempted) py" where
  "try_reciprocal = Attempt_call (Attempt_init reciprocal [ArithmeticError])"

definition positive :: "int pyval \<Rightarrow> (nat, int Attempted) py" where
  "positive v =
     (case v of
        PyNone \<Rightarrow> py_raise (Exc TypeError ''not a number'')
      | PyVal n \<Rightarrow>
          if n < 0 then py_raise (Exc ValueError ''negative'')
          else py_return (Attempted_of (PyVal n)))"

text \<open>
  \<open>counted f\<close> is \<open>f\<close> with a counter of its calls in front of the state: each call of
  \<open>counted f\<close> adds one to the counter and then does what \<open>f\<close> does.
\<close>

definition counted :: "('x \<Rightarrow> ('s, 'a) py) \<Rightarrow> 'x \<Rightarrow> (nat \<times> 's, 'a) py" where
  "counted f x = (\<lambda>(n, s). case f x s of (r, s') \<Rightarrow> (r, (Suc n, s')))"

section \<open>Construction and reading of containers\<close>

text \<open>
  C5. For every value \<open>v\<close>, \<^verbatim>\<open>None\<close> included, \<^verbatim>\<open>Attempted.of(v)\<close> is truthy and its
  \<^verbatim>\<open>value\<close> returns \<open>v\<close> without raising. Whether a container is a success depends on
  its held exception alone: any container is truthy exactly when it holds no exception,
  whatever its value is.
\<close>

theorem of_is_success:
  "Attempted_bool (Attempted_of v)
   \<and> Attempted_value (Attempted_of v) = Inr v
   \<and> Attempted_bool (Attempted_of (PyNone :: 'v pyval))
   \<and> Attempted_value (Attempted_of (PyNone :: 'v pyval)) = Inr PyNone
   \<and> Attempted_bool (Attempted_init w x) = (x = None)"
  by (simp add: Attempted_of_def Attempted_init_def Attempted_bool_def
      Attempted_value_def Attempted_exception_def)

text \<open>
  C6. For every exception \<open>e\<close> (an argument that is not \<^verbatim>\<open>None\<close>),
  \<^verbatim>\<open>Attempted.of_exception(e)\<close> is falsy, holds \<open>e\<close>, and reading its \<^verbatim>\<open>value\<close> raises
  \<open>e\<close> itself.
\<close>

theorem of_exception_is_failure:
  "\<not> Attempted_bool (Attempted_of_exception (Some e))
   \<and> Attempted_exception (Attempted_of_exception (Some e)) = Some e
   \<and> Attempted_value (Attempted_of_exception (Some e)) = Inl e"
  by (simp add: Attempted_of_exception_def Attempted_init_def Attempted_bool_def
      Attempted_value_def Attempted_exception_def)

text \<open>
  C10. \<^verbatim>\<open>Attempted.of_exception(None)\<close> is accepted: the container it returns is truthy,
  its \<^verbatim>\<open>value\<close> returns \<^verbatim>\<open>None\<close> without raising, and it has the same fields as
  \<^verbatim>\<open>Attempted.of(None)\<close>.
\<close>

theorem of_exception_None_is_success:
  "Attempted_bool (Attempted_of_exception None)
   \<and> Attempted_value (Attempted_of_exception None :: 'v Attempted) = Inr PyNone
   \<and> Attempted_exception (Attempted_of_exception None) = None
   \<and> (Attempted_of_exception None :: 'v Attempted) = Attempted_of PyNone"
  by (simp add: Attempted_of_exception_def Attempted_of_def Attempted_init_def
      Attempted_bool_def Attempted_value_def Attempted_exception_def)

section \<open>Calling an \<^verbatim>\<open>Attempt\<close>\<close>

lemma of_fields:
  "Attempted_bool (Attempted_of v)"
  "Attempted_value (Attempted_of v) = Inr v"
  "\<not> Attempted_bool (Attempted_of_exception (Some e))"
  "Attempted_exception (Attempted_of_exception (Some e)) = Some e"
  "Attempted_value (Attempted_of_exception (Some e)) = Inl e"
  by (simp_all add: Attempted_of_def Attempted_of_exception_def Attempted_init_def
      Attempted_bool_def Attempted_value_def Attempted_exception_def)

lemma wrapper_returns:
  "fn args s = (Inr v, s') \<Longrightarrow> wrapper fn ts args s = (Inr (Attempted_of v), s')"
  by (simp add: wrapper_def)

lemma wrapper_catches:
  "fn args s = (Inl e, s') \<Longrightarrow> except_matches ts e
   \<Longrightarrow> wrapper fn ts args s = (Inr (Attempted_of_exception (Some e)), s')"
  by (simp add: wrapper_def)

lemma wrapper_propagates:
  "fn args s = (Inl e, s') \<Longrightarrow> \<not> except_matches ts e
   \<Longrightarrow> wrapper fn ts args s = (Inl e, s')"
  by (simp add: wrapper_def)

lemma Attempt_call_init:
  "Attempt_call (Attempt_init fn kinds) args s =
     wrapper fn (priv_exc_types (Attempt_init fn kinds)) args s"
  by (simp add: Attempt_call_def Attempt_init_def Let_def)

lemma exc_types_default: "priv_exc_types (Attempt_init fn []) = OneClass Exception"
  by (simp add: Attempt_init_def Let_def)

lemma exc_types_given:
  "kinds \<noteq> [] \<Longrightarrow> priv_exc_types (Attempt_init fn kinds) = ClassTuple kinds"
  by (simp add: Attempt_init_def Let_def)

text \<open>
  C1. Let \<open>A\<close> be \<^verbatim>\<open>Attempt(fn, *kinds)\<close>. If \<open>fn\<close> returns \<open>v\<close> on the arguments, the
  call of \<open>A\<close> returns \<^verbatim>\<open>Attempted.of(v)\<close>, a truthy container whose \<^verbatim>\<open>value\<close> returns
  \<open>v\<close>. If \<open>fn\<close> raises \<open>e\<close> and the handler \<^verbatim>\<open>except self._exc_types\<close> takes
  \<open>e\<close>, the call returns \<^verbatim>\<open>Attempted.of_exception(e)\<close>, a falsy container that holds
  \<open>e\<close> and whose \<^verbatim>\<open>value\<close> raises \<open>e\<close>. If \<open>fn\<close> raises \<open>e\<close> and the handler does
  not take it, the call raises \<open>e\<close>. The state is the one \<open>fn\<close> left. For classes that
  were given, the handler takes \<open>e\<close> exactly when \<open>e\<close> is an instance of one of them.
\<close>

theorem Attempt_call_outcomes:
  fixes fn :: "'x \<Rightarrow> ('s, 'v pyval) py"
  shows
  "(fn args s = (Inr v, s') \<longrightarrow>
      Attempt_call (Attempt_init fn kinds) args s = (Inr (Attempted_of v), s')
      \<and> Attempted_bool (Attempted_of v)
      \<and> Attempted_exception (Attempted_of v) = None
      \<and> Attempted_value (Attempted_of v) = Inr v)
   \<and> (fn args s = (Inl e, s') \<and> except_matches (priv_exc_types (Attempt_init fn kinds)) e \<longrightarrow>
      Attempt_call (Attempt_init fn kinds) args s = (Inr (Attempted_of_exception (Some e)), s')
      \<and> \<not> Attempted_bool (Attempted_of_exception (Some e) :: 'v Attempted)
      \<and> Attempted_exception (Attempted_of_exception (Some e) :: 'v Attempted) = Some e
      \<and> Attempted_value (Attempted_of_exception (Some e) :: 'v Attempted) = Inl e)
   \<and> (fn args s = (Inl e, s') \<and> \<not> except_matches (priv_exc_types (Attempt_init fn kinds)) e \<longrightarrow>
      Attempt_call (Attempt_init fn kinds) args s = (Inl e, s'))
   \<and> (kinds \<noteq> [] \<longrightarrow>
      except_matches (priv_exc_types (Attempt_init fn kinds)) e = (\<exists>k \<in> set kinds. isinstance e k))"
proof (intro conjI impI)
  assume "fn args s = (Inr v, s')"
  then show "Attempt_call (Attempt_init fn kinds) args s = (Inr (Attempted_of v), s')"
    by (simp add: Attempt_call_init wrapper_returns)
next
  show "Attempted_bool (Attempted_of v)"
    by (rule of_fields)
next
  show "Attempted_exception (Attempted_of v) = None"
    by (simp add: Attempted_exception_def Attempted_of_def Attempted_init_def)
next
  show "Attempted_value (Attempted_of v) = Inr v"
    by (rule of_fields)
next
  assume "fn args s = (Inl e, s') \<and> except_matches (priv_exc_types (Attempt_init fn kinds)) e"
  then show "Attempt_call (Attempt_init fn kinds) args s
      = (Inr (Attempted_of_exception (Some e)), s')"
    by (simp add: Attempt_call_init wrapper_catches)
next
  show "\<not> Attempted_bool (Attempted_of_exception (Some e) :: 'v Attempted)"
    by (rule of_fields)
next
  show "Attempted_exception (Attempted_of_exception (Some e) :: 'v Attempted) = Some e"
    by (rule of_fields)
next
  show "Attempted_value (Attempted_of_exception (Some e) :: 'v Attempted) = Inl e"
    by (rule of_fields)
next
  assume "fn args s = (Inl e, s') \<and> \<not> except_matches (priv_exc_types (Attempt_init fn kinds)) e"
  then show "Attempt_call (Attempt_init fn kinds) args s = (Inl e, s')"
    by (simp add: Attempt_call_init wrapper_propagates)
next
  assume "kinds \<noteq> []"
  then show "except_matches (priv_exc_types (Attempt_init fn kinds)) e
      = (\<exists>k \<in> set kinds. isinstance e k)"
    by (simp add: exc_types_given list_ex_iff)
qed

theorem Attempt_call_outcomes_witness:
  "reciprocal (PyVal 5) 0 = (Inr (PyVal 20), 1)
   \<and> Attempt_call (Attempt_init reciprocal [ArithmeticError]) (PyVal 5) 0
       = (Inr (Attempted_of (PyVal 20)), 1)
   \<and> reciprocal (PyVal 0) 0
       = (Inl (Exc ZeroDivisionError ''integer division or modulo by zero''), 1)
   \<and> except_matches (priv_exc_types (Attempt_init reciprocal [ArithmeticError]))
        (Exc ZeroDivisionError ''integer division or modulo by zero'')
   \<and> Attempt_call (Attempt_init reciprocal [ArithmeticError]) (PyVal 0) 0
       = (Inr (Attempted_of_exception
            (Some (Exc ZeroDivisionError ''integer division or modulo by zero''))), 1)
   \<and> \<not> except_matches (priv_exc_types (Attempt_init reciprocal [ValueError, KeyError]))
        (Exc ZeroDivisionError ''integer division or modulo by zero'')
   \<and> Attempt_call (Attempt_init reciprocal [ValueError, KeyError]) (PyVal 0) 0
       = (Inl (Exc ZeroDivisionError ''integer division or modulo by zero''), 1)
   \<and> Attempted_bool (Attempted_of (PyVal (20::int)))
   \<and> Attempted_value (Attempted_of (PyVal (20::int))) = Inr (PyVal 20)
   \<and> \<not> Attempted_bool (Attempted_of_exception
        (Some (Exc ZeroDivisionError ''integer division or modulo by zero'')) :: int Attempted)
   \<and> Attempted_exception (Attempted_of_exception
        (Some (Exc ZeroDivisionError ''integer division or modulo by zero'')) :: int Attempted)
       = Some (Exc ZeroDivisionError ''integer division or modulo by zero'')"
proof -
  let ?e = "Exc ZeroDivisionError ''integer division or modulo by zero''"
  have r: "reciprocal (PyVal 5) 0 = (Inr (PyVal 20), 1)"
    by (simp add: reciprocal_def)
  have z: "reciprocal (PyVal 0) 0 = (Inl ?e, 1)"
    by (simp add: reciprocal_def)
  have m: "except_matches (priv_exc_types (Attempt_init reciprocal [ArithmeticError])) ?e"
    by (simp add: exc_types_given isinstance_def issubclass_def)
  have n: "\<not> except_matches (priv_exc_types (Attempt_init reciprocal [ValueError, KeyError])) ?e"
    by (simp add: exc_types_given isinstance_def issubclass_def)
  note a = Attempt_call_outcomes [where fn = reciprocal and args = "PyVal 5" and s = 0
      and v = "PyVal 20" and s' = 1 and kinds = "[ArithmeticError]" and e = ?e]
  note b = Attempt_call_outcomes [where fn = reciprocal and args = "PyVal 0" and s = 0
      and v = "PyVal 20" and s' = 1 and kinds = "[ArithmeticError]" and e = ?e]
  note c = Attempt_call_outcomes [where fn = reciprocal and args = "PyVal 0" and s = 0
      and v = "PyVal 20" and s' = 1 and kinds = "[ValueError, KeyError]" and e = ?e]
  from a r have 1: "Attempt_call (Attempt_init reciprocal [ArithmeticError]) (PyVal 5) 0
       = (Inr (Attempted_of (PyVal 20)), 1)" by blast
  from b z m have 2: "Attempt_call (Attempt_init reciprocal [ArithmeticError]) (PyVal 0) 0
       = (Inr (Attempted_of_exception (Some ?e)), 1)" by blast
  from c z n have 3: "Attempt_call (Attempt_init reciprocal [ValueError, KeyError]) (PyVal 0) 0
       = (Inl ?e, 1)" by blast
  from a r have 4: "Attempted_bool (Attempted_of (PyVal (20::int)))
      \<and> Attempted_value (Attempted_of (PyVal (20::int))) = Inr (PyVal 20)" by blast
  from b z m have 5: "\<not> Attempted_bool (Attempted_of_exception (Some ?e) :: int Attempted)
      \<and> Attempted_exception (Attempted_of_exception (Some ?e) :: int Attempted) = Some ?e"
    by blast
  from r z m n 1 2 3 4 5 show ?thesis by blast
qed

section \<open>The default handler\<close>

lemma default_handler:
  "except_matches (priv_exc_types (Attempt_init fn [])) e = isinstance e Exception"
  by (simp add: exc_types_default)

lemma Attempt_default_returns:
  "fn args s = (Inr r, s')
   \<Longrightarrow> Attempt_call (Attempt_init fn []) args s = (Inr (Attempted_of r), s')"
  by (simp add: Attempt_call_init wrapper_returns)

lemma Attempt_default_catches:
  "fn args s = (Inl e, s') \<Longrightarrow> isinstance e Exception
   \<Longrightarrow> Attempt_call (Attempt_init fn []) args s = (Inr (Attempted_of_exception (Some e)), s')"
  by (simp add: Attempt_call_init wrapper_catches default_handler)

lemma Attempt_default_propagates:
  "fn args s = (Inl e, s') \<Longrightarrow> \<not> isinstance e Exception
   \<Longrightarrow> Attempt_call (Attempt_init fn []) args s = (Inl e, s')"
  by (simp add: Attempt_call_init wrapper_propagates default_handler)

text \<open>
  C8, as stated, fails: \<^verbatim>\<open>Attempt(fn)\<close> without classes does not take everything that
  can be caught. A function that raises \<^verbatim>\<open>SystemExit\<close>, an instance of
  \<^verbatim>\<open>BaseException\<close>, is called through \<^verbatim>\<open>Attempt(exiting)\<close>, and the call raises; the
  handler is not the class \<^verbatim>\<open>BaseException\<close>.
\<close>

theorem Attempt_default_counterexample:
  "exiting (PyVal 1) 0 = (Inl (Exc SystemExit ''0''), 0)
   \<and> Attempt_call (Attempt_init exiting []) (PyVal 1) 0 = (Inl (Exc SystemExit ''0''), 0)
   \<and> isinstance (Exc SystemExit ''0'') BaseException
   \<and> priv_exc_types (Attempt_init exiting []) \<noteq> OneClass BaseException"
  by (simp add: exiting_def py_raise_def Attempt_call_init wrapper_def exc_types_default
      isinstance_def issubclass_def)

text \<open>
  C8, amended. When \<^verbatim>\<open>Attempt\<close> is constructed with no classes, its handler is the class
  \<^verbatim>\<open>Exception\<close>: an exception \<open>e\<close> of the wrapped function that is an instance of
  \<^verbatim>\<open>Exception\<close> comes back in a failure container (falsy, holding \<open>e\<close>, its
  \<^verbatim>\<open>value\<close> raising \<open>e\<close>), and an exception that is not (an instance of
  \<^verbatim>\<open>BaseException\<close> only, such as \<^verbatim>\<open>SystemExit\<close> or \<^verbatim>\<open>KeyboardInterrupt\<close>) leaves
  the call.
\<close>

theorem Attempt_default_kinds:
  fixes fn :: "'x \<Rightarrow> ('s, 'v pyval) py"
  shows
  "priv_exc_types (Attempt_init fn []) = OneClass Exception
   \<and> (fn args s = (Inl e, s') \<and> isinstance e Exception \<longrightarrow>
        Attempt_call (Attempt_init fn []) args s = (Inr (Attempted_of_exception (Some e)), s')
        \<and> \<not> Attempted_bool (Attempted_of_exception (Some e) :: 'v Attempted)
        \<and> Attempted_exception (Attempted_of_exception (Some e) :: 'v Attempted) = Some e
        \<and> Attempted_value (Attempted_of_exception (Some e) :: 'v Attempted) = Inl e)
   \<and> (fn args s = (Inl e, s') \<and> \<not> isinstance e Exception \<longrightarrow>
        Attempt_call (Attempt_init fn []) args s = (Inl e, s'))"
  by (simp add: exc_types_default Attempt_default_catches Attempt_default_propagates of_fields)

theorem Attempt_default_kinds_witness:
  "reciprocal (PyVal 0) 7
     = (Inl (Exc ZeroDivisionError ''integer division or modulo by zero''), 8)
   \<and> isinstance (Exc ZeroDivisionError ''integer division or modulo by zero'') Exception
   \<and> Attempt_call (Attempt_init reciprocal []) (PyVal 0) 7
       = (Inr (Attempted_of_exception
            (Some (Exc ZeroDivisionError ''integer division or modulo by zero''))), 8)
   \<and> interrupted (PyVal 0) 7 = (Inl (Exc KeyboardInterrupt []), 7)
   \<and> \<not> isinstance (Exc KeyboardInterrupt []) Exception
   \<and> Attempt_call (Attempt_init interrupted []) (PyVal 0) 7 = (Inl (Exc KeyboardInterrupt []), 7)
   \<and> \<not> Attempted_bool (Attempted_of_exception
        (Some (Exc ZeroDivisionError ''integer division or modulo by zero'')) :: int Attempted)
   \<and> Attempted_exception (Attempted_of_exception
        (Some (Exc ZeroDivisionError ''integer division or modulo by zero'')) :: int Attempted)
       = Some (Exc ZeroDivisionError ''integer division or modulo by zero'')"
proof -
  let ?z = "Exc ZeroDivisionError ''integer division or modulo by zero''"
  let ?k = "Exc KeyboardInterrupt []"
  have z: "reciprocal (PyVal 0) 7 = (Inl ?z, 8)"
    by (simp add: reciprocal_def)
  have zi: "isinstance ?z Exception"
    by (simp add: isinstance_def issubclass_def)
  have k: "interrupted (PyVal 0) 7 = (Inl ?k, 7)"
    by (simp add: interrupted_def py_raise_def)
  have ki: "\<not> isinstance ?k Exception"
    by (simp add: isinstance_def issubclass_def)
  note a = Attempt_default_kinds [where fn = reciprocal and args = "PyVal 0" and s = 7
      and s' = 8 and e = ?z]
  note b = Attempt_default_kinds [where fn = interrupted and args = "PyVal 0" and s = 7
      and s' = 7 and e = ?k]
  from a z zi have 1: "Attempt_call (Attempt_init reciprocal []) (PyVal 0) 7
      = (Inr (Attempted_of_exception (Some ?z)), 8)" by blast
  from b k ki have 2: "Attempt_call (Attempt_init interrupted []) (PyVal 0) 7 = (Inl ?k, 7)"
    by blast
  from a z zi have 3: "\<not> Attempted_bool (Attempted_of_exception (Some ?z) :: int Attempted)
      \<and> Attempted_exception (Attempted_of_exception (Some ?z) :: int Attempted) = Some ?z"
    by blast
  from z zi k ki 1 2 3 show ?thesis by blast
qed

section \<open>\<^verbatim>\<open>map\<close> and \<^verbatim>\<open>flatmap\<close> on one container\<close>

lemma Attempted_value_success:
  "Attempted_bool a \<Longrightarrow> Attempted_value a = Inr (priv_value a)"
  by (simp add: Attempted_bool_def Attempted_value_def)

lemma Attempted_map_success:
  "Attempted_bool a \<Longrightarrow> Attempted_value a = Inr v
   \<Longrightarrow> Attempted_map a f s = Attempt_call (Attempt_init f []) v s"
  by (simp add: Attempted_map_def py_bind_def py_pure_def)

lemma Attempted_map_failed: "\<not> Attempted_bool a \<Longrightarrow> Attempted_map a f s = (Inr a, s)"
  by (simp add: Attempted_map_def py_return_def)

lemma Attempted_flatmap_success:
  "Attempted_bool a \<Longrightarrow> Attempted_value a = Inr v \<Longrightarrow> Attempted_flatmap a f s = f v s"
  by (simp add: Attempted_flatmap_def py_bind_def py_pure_def)

lemma Attempted_flatmap_failed:
  "\<not> Attempted_bool a \<Longrightarrow> Attempted_flatmap a f s = (Inr a, s)"
  by (simp add: Attempted_flatmap_def py_return_def)

text \<open>
  C3, as stated, fails: \<^verbatim>\<open>map\<close> is not guarded against every exception. On the
  successful container of \<open>1\<close>, a function that raises \<^verbatim>\<open>KeyboardInterrupt\<close> makes
  \<^verbatim>\<open>map\<close> itself raise it; no failure container comes back.
\<close>

theorem map_catch_all_counterexample:
  "Attempted_bool (Attempted_of (PyVal (1::int)))
   \<and> Attempted_value (Attempted_of (PyVal (1::int))) = Inr (PyVal 1)
   \<and> interrupted (PyVal 1) 0 = (Inl (Exc KeyboardInterrupt []), 0)
   \<and> Attempted_map (Attempted_of (PyVal 1)) interrupted 0 = (Inl (Exc KeyboardInterrupt []), 0)"
  by (simp add: Attempted_map_def Attempted_of_def Attempted_init_def Attempted_bool_def
      Attempted_value_def Attempted_exception_def interrupted_def py_raise_def py_bind_def
      py_pure_def Attempt_call_init wrapper_def exc_types_default isinstance_def
      issubclass_def)

text \<open>
  C3, amended. Let \<open>a\<close> be a successful container with value \<open>v\<close>. If \<open>f v\<close> returns
  \<open>r\<close>, then \<^verbatim>\<open>a.map(f)\<close> returns a successful container whose value is \<open>r\<close>. If
  \<open>f v\<close> raises an instance \<open>e\<close> of \<^verbatim>\<open>Exception\<close>, then \<^verbatim>\<open>a.map(f)\<close> does not raise
  and returns a failure container: it is falsy, it holds \<open>e\<close>, and its \<^verbatim>\<open>value\<close> raises
  \<open>e\<close>. If \<open>f v\<close> raises an exception that is not an
  instance of \<^verbatim>\<open>Exception\<close>, then \<^verbatim>\<open>a.map(f)\<close> raises it.
\<close>

theorem map_on_success:
  fixes a :: "'v Attempted"
  assumes "Attempted_bool a" and "Attempted_value a = Inr v"
  shows "(f v s = (Inr r, s') \<longrightarrow>
            Attempted_map a f s = (Inr (Attempted_of r), s')
            \<and> Attempted_bool (Attempted_of r) \<and> Attempted_value (Attempted_of r) = Inr r)
       \<and> (f v s = (Inl e, s') \<and> isinstance e Exception \<longrightarrow>
            Attempted_map a f s = (Inr (Attempted_of_exception (Some e)), s')
            \<and> \<not> Attempted_bool (Attempted_of_exception (Some e) :: 'v Attempted)
            \<and> Attempted_exception (Attempted_of_exception (Some e) :: 'v Attempted) = Some e
            \<and> Attempted_value (Attempted_of_exception (Some e) :: 'v Attempted) = Inl e)
       \<and> (f v s = (Inl e, s') \<and> \<not> isinstance e Exception \<longrightarrow>
            Attempted_map a f s = (Inl e, s'))"
proof -
  have m: "Attempted_map a f s = Attempt_call (Attempt_init f []) v s"
    using assms by (rule Attempted_map_success)
  show ?thesis
    unfolding m
    by (simp add: of_fields Attempt_default_returns Attempt_default_catches
        Attempt_default_propagates)
qed

theorem map_on_success_witness:
  "Attempted_bool (Attempted_of (PyVal (4::int)))
   \<and> Attempted_value (Attempted_of (PyVal (4::int))) = Inr (PyVal 4)
   \<and> reciprocal (PyVal 4) 0 = (Inr (PyVal 25), 1)
   \<and> Attempted_map (Attempted_of (PyVal 4)) reciprocal 0 = (Inr (Attempted_of (PyVal 25)), 1)
   \<and> Attempted_bool (Attempted_of (PyVal (0::int)))
   \<and> Attempted_value (Attempted_of (PyVal (0::int))) = Inr (PyVal 0)
   \<and> reciprocal (PyVal 0) 0
       = (Inl (Exc ZeroDivisionError ''integer division or modulo by zero''), 1)
   \<and> isinstance (Exc ZeroDivisionError ''integer division or modulo by zero'') Exception
   \<and> Attempted_map (Attempted_of (PyVal 0)) reciprocal 0
       = (Inr (Attempted_of_exception
            (Some (Exc ZeroDivisionError ''integer division or modulo by zero''))), 1)
   \<and> exiting (PyVal 0) 0 = (Inl (Exc SystemExit ''0''), 0)
   \<and> \<not> isinstance (Exc SystemExit ''0'') Exception
   \<and> Attempted_map (Attempted_of (PyVal 0)) exiting 0 = (Inl (Exc SystemExit ''0''), 0)
   \<and> \<not> Attempted_bool (Attempted_of_exception
        (Some (Exc ZeroDivisionError ''integer division or modulo by zero'')) :: int Attempted)
   \<and> Attempted_exception (Attempted_of_exception
        (Some (Exc ZeroDivisionError ''integer division or modulo by zero'')) :: int Attempted)
       = Some (Exc ZeroDivisionError ''integer division or modulo by zero'')"
proof -
  let ?z = "Exc ZeroDivisionError ''integer division or modulo by zero''"
  let ?x = "Exc SystemExit ''0''"
  have b4: "Attempted_bool (Attempted_of (PyVal (4::int)))"
    and v4: "Attempted_value (Attempted_of (PyVal (4::int))) = Inr (PyVal 4)"
    and b0: "Attempted_bool (Attempted_of (PyVal (0::int)))"
    and v0: "Attempted_value (Attempted_of (PyVal (0::int))) = Inr (PyVal 0)"
    by (simp_all add: of_fields)
  have r: "reciprocal (PyVal 4) 0 = (Inr (PyVal 25), 1)"
    and z: "reciprocal (PyVal 0) 0 = (Inl ?z, 1)"
    by (simp_all add: reciprocal_def)
  have x: "exiting (PyVal 0) 0 = (Inl ?x, 0)"
    by (simp add: exiting_def py_raise_def)
  have zi: "isinstance ?z Exception" and xi: "\<not> isinstance ?x Exception"
    by (simp_all add: isinstance_def issubclass_def)
  note a = map_on_success [OF b4 v4, where f = reciprocal and s = 0 and r = "PyVal 25"
      and s' = 1 and e = ?z]
  note b = map_on_success [OF b0 v0, where f = reciprocal and s = 0 and r = "PyVal 25"
      and s' = 1 and e = ?z]
  note c = map_on_success [OF b0 v0, where f = exiting and s = 0 and r = "PyVal 25"
      and s' = 0 and e = ?x]
  from a r have 1: "Attempted_map (Attempted_of (PyVal 4)) reciprocal 0
      = (Inr (Attempted_of (PyVal 25)), 1)" by blast
  from b z zi have 2: "Attempted_map (Attempted_of (PyVal 0)) reciprocal 0
      = (Inr (Attempted_of_exception (Some ?z)), 1)" by blast
  from c x xi have 3: "Attempted_map (Attempted_of (PyVal 0)) exiting 0 = (Inl ?x, 0)"
    by blast
  from b z zi have 4: "\<not> Attempted_bool (Attempted_of_exception (Some ?z) :: int Attempted)
      \<and> Attempted_exception (Attempted_of_exception (Some ?z) :: int Attempted) = Some ?z"
    by blast
  from b4 v4 b0 v0 r z x zi xi 1 2 3 4 show ?thesis by blast
qed

text \<open>
  On a successful container both operations call a counted function exactly once, so
  the counter of \<open>counted\<close> does record calls.
\<close>

lemma counted_map_success:
  "Attempted_bool a \<Longrightarrow> fst (snd (Attempted_map a (counted f) (n, s))) = Suc n"
  by (simp add: Attempted_map_success [OF _ Attempted_value_success] Attempt_call_init
      wrapper_def counted_def split: prod.splits sum.splits)

lemma counted_flatmap_success:
  "Attempted_bool a \<Longrightarrow> fst (snd (Attempted_flatmap a (counted g) (n, s))) = Suc n"
  by (simp add: Attempted_flatmap_success [OF _ Attempted_value_success]
      counted_def split: prod.splits)

text \<open>
  C4. For every failed container \<open>a\<close> and all functions \<open>f\<close> and \<open>g\<close>, \<^verbatim>\<open>a.map(f)\<close>
  and \<^verbatim>\<open>a.flatmap(g)\<close> return \<open>a\<close> itself (so a failed container with the same error)
  and leave the state as it was. The function is not called: with counted functions the
  counter of calls keeps its value.
\<close>

theorem failed_skips_fn:
  assumes "\<not> Attempted_bool a"
  shows "Attempted_map a f s = (Inr a, s)
       \<and> Attempted_flatmap a g s = (Inr a, s)
       \<and> Attempted_map a (counted f) (n, s) = (Inr a, (n, s))
       \<and> Attempted_flatmap a (counted g) (n, s) = (Inr a, (n, s))"
  using assms by (simp add: Attempted_map_failed Attempted_flatmap_failed)

theorem failed_skips_fn_witness:
  "\<not> Attempted_bool (Attempted_of_exception (Some (Exc ValueError ''bad'')) :: int Attempted)
   \<and> Attempted_map (Attempted_of_exception (Some (Exc ValueError ''bad''))) reciprocal 0
       = (Inr (Attempted_of_exception (Some (Exc ValueError ''bad''))), 0)
   \<and> Attempted_flatmap (Attempted_of_exception (Some (Exc ValueError ''bad''))) try_reciprocal 0
       = (Inr (Attempted_of_exception (Some (Exc ValueError ''bad''))), 0)
   \<and> Attempted_map (Attempted_of_exception (Some (Exc ValueError ''bad'')))
        (counted reciprocal) (0, 0)
       = (Inr (Attempted_of_exception (Some (Exc ValueError ''bad''))), (0, 0))
   \<and> Attempted_flatmap (Attempted_of_exception (Some (Exc ValueError ''bad'')))
        (counted try_reciprocal) (0, 0)
       = (Inr (Attempted_of_exception (Some (Exc ValueError ''bad''))), (0, 0))"
proof -
  have f: "\<not> Attempted_bool
      (Attempted_of_exception (Some (Exc ValueError ''bad'')) :: int Attempted)"
    by (rule of_fields)
  from failed_skips_fn [OF f, where f = reciprocal and g = try_reciprocal and s = 0 and n = 0] f
  show ?thesis by blast
qed

text \<open>
  C9. For every successful container \<open>a\<close> with value \<open>v\<close> and every function \<open>fn\<close>: if
  \<open>fn v\<close> raises \<open>e\<close>, then \<^verbatim>\<open>a.flatmap(fn)\<close> raises \<open>e\<close>, in the state \<open>fn\<close> left.
  No handler stands around the call, whatever the class of \<open>e\<close> is.
\<close>

theorem flatmap_propagates:
  assumes "Attempted_bool a" and "Attempted_value a = Inr v" and "fn v s = (Inl e, s')"
  shows "Attempted_flatmap a fn s = (Inl e, s')"
  using assms by (simp add: Attempted_flatmap_success)

theorem flatmap_propagates_witness:
  "Attempted_bool (Attempted_of (PyVal (- 3 :: int)))
   \<and> Attempted_value (Attempted_of (PyVal (- 3 :: int))) = Inr (PyVal (- 3))
   \<and> positive (PyVal (- 3)) (0::nat) = (Inl (Exc ValueError ''negative''), 0)
   \<and> isinstance (Exc ValueError ''negative'') Exception
   \<and> Attempted_flatmap (Attempted_of (PyVal (- 3))) positive (0::nat)
       = (Inl (Exc ValueError ''negative''), 0)"
proof -
  have b: "Attempted_bool (Attempted_of (PyVal (- 3 :: int)))"
    and v: "Attempted_value (Attempted_of (PyVal (- 3 :: int))) = Inr (PyVal (- 3))"
    by (rule of_fields)+
  have p: "positive (PyVal (- 3)) (0::nat) = (Inl (Exc ValueError ''negative''), 0)"
    by (simp add: positive_def py_raise_def)
  have i: "isinstance (Exc ValueError ''negative'') Exception"
    by (simp add: isinstance_def issubclass_def)
  from flatmap_propagates [where fn = positive, OF b v p] b v p i show ?thesis by blast
qed

text \<open>
  C7. For every successful container \<open>a\<close> and all functions \<open>f\<close> and \<open>g\<close> that return
  containers (or raise), \<^verbatim>\<open>a.flatmap(f).flatmap(g)\<close> and
  \<^verbatim>\<open>a.flatmap(lambda x: f(x).flatmap(g))\<close> are the same computation: from every state
  they give the same result or raise the same exception, and leave the same state.
\<close>

theorem flatmap_assoc:
  assumes "Attempted_bool a"
  shows "py_bind (Attempted_flatmap a f) (\<lambda>r. Attempted_flatmap r g)
       = Attempted_flatmap a (\<lambda>x. py_bind (f x) (\<lambda>r. Attempted_flatmap r g))"
proof
  fix s
  have v: "Attempted_value a = Inr (priv_value a)"
    using assms by (rule Attempted_value_success)
  show "py_bind (Attempted_flatmap a f) (\<lambda>r. Attempted_flatmap r g) s
      = Attempted_flatmap a (\<lambda>x. py_bind (f x) (\<lambda>r. Attempted_flatmap r g)) s"
    by (simp add: Attempted_flatmap_success [OF assms v] py_bind_def)
qed

theorem flatmap_assoc_witness:
  "Attempted_bool (Attempted_of (PyVal (4::int)))
   \<and> py_bind (Attempted_flatmap (Attempted_of (PyVal 4)) try_reciprocal)
        (\<lambda>r. Attempted_flatmap r positive) 0
       = (Inr (Attempted_of (PyVal 25)), 1)
   \<and> Attempted_flatmap (Attempted_of (PyVal 4))
        (\<lambda>x. py_bind (try_reciprocal x) (\<lambda>r. Attempted_flatmap r positive)) 0
       = (Inr (Attempted_of (PyVal 25)), 1)"
proof -
  have b: "Attempted_bool (Attempted_of (PyVal (4::int)))"
    by (rule of_fields)
  have l: "py_bind (Attempted_flatmap (Attempted_of (PyVal 4)) try_reciprocal)
        (\<lambda>r. Attempted_flatmap r positive) 0 = (Inr (Attempted_of (PyVal 25)), 1)"
    by (simp add: py_bind_def Attempted_flatmap_success [OF of_fields(1) of_fields(2)]
        try_reciprocal_def Attempt_call_init wrapper_def reciprocal_def positive_def
        py_return_def)
  from flatmap_assoc [OF b, where f = try_reciprocal and g = positive] l b
  show ?thesis by simp
qed

section \<open>\<^verbatim>\<open>IterAttempted.values\<close>\<close>

text \<open>
  What \<^verbatim>\<open>values\<close> does on a list of containers. With \<^verbatim>\<open>ignore_failures\<close> it yields
  the values of the successful containers in order and returns. Without it, it yields
  the values of the successful containers in front of the first failed one and then
  raises, and the containers behind the failed one are never asked for; the exception
  raised is the held one unless that is an instance of \<^verbatim>\<open>StopIteration\<close>.
\<close>

lemma values_loop_ignore:
  "values_loop True (from_list cs) s
     = ((map priv_value (filter Attempted_bool cs), Returned, []), s)"
  by (induction cs) (simp_all add: from_list_def py_return_def Attempted_value_success)

lemma values_loop_all_success:
  "\<forall>a \<in> set cs. Attempted_bool a
   \<Longrightarrow> values_loop ig (from_list cs) s = ((map priv_value cs, Returned, []), s)"
  by (induction cs) (simp_all add: from_list_def py_return_def Attempted_value_success)

lemma values_loop_first_failure:
  "\<forall>a \<in> set pre. Attempted_bool a \<Longrightarrow> \<not> Attempted_bool a
   \<Longrightarrow> values_loop False (from_list (pre @ a # post)) s
     = ((map priv_value pre, Raised (raise_in_generator (Attempted_exception a)),
         from_list post), s)"
  by (induction pre) (simp_all add: from_list_def py_return_def Attempted_value_success)

lemma raise_in_generator_same:
  "\<not> isinstance e StopIteration \<Longrightarrow> raise_in_generator (Some e) = e"
  by (simp add: raise_in_generator_def)

text \<open>
  The elements of \<^verbatim>\<open>Attempt(reciprocal).map([4, 0, 5])\<close> are computed when they are
  asked for: without \<^verbatim>\<open>ignore_failures\<close>, \<^verbatim>\<open>values\<close> yields \<open>25\<close>, raises the
  \<^verbatim>\<open>ZeroDivisionError\<close> of the second call, and \<open>reciprocal\<close> has been called twice.
\<close>

lemma values_stops_consuming:
  "IterAttempted_values
     (Attempt_map (Attempt_init reciprocal []) (from_list [PyVal 4, PyVal 0, PyVal 5])) False 0
   = (([PyVal 25], Raised (Exc ZeroDivisionError ''integer division or modulo by zero''),
       py_map (Attempt_call (Attempt_init reciprocal [])) (from_list [PyVal 5])), 2)"
  by (simp add: IterAttempted_values_def IterAttempted_iter_def IterAttempted_init_def
      Attempt_map_def py_map_def from_list_def py_return_def py_bind_def Attempt_call_init
      wrapper_def exc_types_default reciprocal_def of_fields raise_in_generator_def
      isinstance_def issubclass_def)

text \<open>
  C2. The claim holds except where the held error is a \<^verbatim>\<open>StopIteration\<close>. For the
  containers \<^verbatim>\<open>of(1)\<close>, \<^verbatim>\<open>of_exception(StopIteration())\<close>, \<^verbatim>\<open>of(3)\<close> and
  \<^verbatim>\<open>ignore_failures=False\<close>, \<^verbatim>\<open>values\<close> yields \<open>1\<close>, consumes nothing behind the failed
  container, and what is raised is a \<^verbatim>\<open>RuntimeError\<close>, not the held error.
\<close>

theorem values_held_StopIteration:
  "IterAttempted_values
     (IterAttempted_init (from_list [Attempted_of (PyVal (1::int)),
        Attempted_of_exception (Some (Exc StopIteration [])), Attempted_of (PyVal 3)]))
     False (0::nat)
   = (([PyVal 1], Raised (Exc RuntimeError ''generator raised StopIteration''),
       from_list [Attempted_of (PyVal 3)]), 0)
   \<and> Exc RuntimeError ''generator raised StopIteration'' \<noteq> Exc StopIteration []"
  by (simp add: IterAttempted_values_def IterAttempted_iter_def IterAttempted_init_def
      from_list_def py_return_def of_fields raise_in_generator_def
      isinstance_def issubclass_def)

end
